theory Spec2Isabelle
  imports Complex_Main "HOL-Library.AList" "HOL-Library.Char_ord" "HOL-Library.List_Lexorder" "HOL-Library.Product_Lexorder" "HOL-Library.Multiset"
begin

section \<open>Column names: Python string operations\<close>

text \<open>
  Column names are Python \<open>str\<close> values. They are modelled as \<open>string\<close>, one
  \<open>char\<close> per code point below 256 (Latin-1); code points above that range are outside
  the model. \<open>lower\<close> is \<open>str.lower()\<close>, \<open>strip\<close> is \<open>str.strip()\<close> with no
  argument, \<open>contains sub s\<close> is the Python test \<open>sub in s\<close>.
\<close>

definition lower_char :: "char \<Rightarrow> char" where
  "lower_char c =
     (let n = (of_char c :: nat)
      in if (65 \<le> n \<and> n \<le> 90) \<or> (192 \<le> n \<and> n \<le> 222 \<and> n \<noteq> 215)
         then char_of (n + 32) else c)"

definition lower :: "string \<Rightarrow> string" where
  "lower s = map lower_char s"

definition is_space :: "char \<Rightarrow> bool" where
  "is_space c =
     (let n = (of_char c :: nat)
      in (9 \<le> n \<and> n \<le> 13) \<or> (28 \<le> n \<and> n \<le> 32) \<or> n = 133 \<or> n = 160)"

definition strip :: "string \<Rightarrow> string" where
  "strip s = rev (dropWhile is_space (rev (dropWhile is_space s)))"

fun starts_with :: "string \<Rightarrow> string \<Rightarrow> bool" where
  "starts_with [] s = True"
| "starts_with (a # as) [] = False"
| "starts_with (a # as) (c # cs) = (a = c \<and> starts_with as cs)"

fun contains :: "string \<Rightarrow> string \<Rightarrow> bool" where
  "contains sub [] = (sub = [])"
| "contains sub (c # cs) = (starts_with sub (c # cs) \<or> contains sub cs)"

text \<open>\<open>col.lower().strip()\<close>, computed at the head of every loop body.\<close>

definition col_lower :: "string \<Rightarrow> string" where
  "col_lower col = strip (lower col)"


section \<open>ColumnMapper: \<open>map_column_names\<close> (app.py)\<close>

text \<open>
  \<open>column_mapping\<close> is a Python dict from original column name to canonical name. A
  dict keeps insertion order and an assignment to an existing key keeps the key's place,
  which is what \<open>AList.update\<close> does on an association list.
  \<open>values m\<close> is \<open>[m for m in column_mapping.values()]\<close>.
\<close>

type_synonym mapping = "(string \<times> string) list"

definition values_of :: "mapping \<Rightarrow> string list" where
  "values_of m = map snd m"

text \<open>
  Each \<open>for col in df_columns\<close> loop with its \<open>break\<close>s is a recursion over the column
  list: a \<open>break\<close> returns the mapping, falling out of every branch continues with the
  next column.
\<close>

fun date_loop :: "string list \<Rightarrow> mapping \<Rightarrow> mapping" where
  "date_loop [] m = m"
| "date_loop (col # cols) m =
     (let cl = col_lower col in
      if contains ''date'' cl then
        (if contains ''order'' cl \<or> contains ''transaction'' cl \<or> contains ''sale'' cl
         then AList.update col ''date'' m
         else if contains ''date'' cl \<and> ''date'' \<notin> set (values_of m)
         then AList.update col ''date'' m
         else date_loop cols m)
      else date_loop cols m)"

fun product_loop :: "string list \<Rightarrow> mapping \<Rightarrow> mapping" where
  "product_loop [] m = m"
| "product_loop (col # cols) m =
     (let cl = col_lower col in
      if contains ''product'' cl \<and> contains ''name'' cl
      then AList.update col ''product'' m
      else if contains ''product'' cl \<and> ''product'' \<notin> set (values_of m)
      then AList.update col ''product'' m
      else if (contains ''item'' cl \<or> contains ''name'' cl) \<and> ''product'' \<notin> set (values_of m)
      then AList.update col ''product'' m
      else product_loop cols m)"

text \<open>
  The region block is three loops sharing the flag \<open>region_found\<close>; each returns the
  mapping and the flag. The third loop sets no flag.
\<close>

fun region_exact_loop :: "string list \<Rightarrow> mapping \<Rightarrow> mapping \<times> bool" where
  "region_exact_loop [] m = (m, False)"
| "region_exact_loop (col # cols) m =
     (if col_lower col = ''region'' then (AList.update col ''region'' m, True)
      else region_exact_loop cols m)"

fun region_partial_loop :: "string list \<Rightarrow> mapping \<Rightarrow> mapping \<times> bool" where
  "region_partial_loop [] m = (m, False)"
| "region_partial_loop (col # cols) m =
     (if contains ''region'' (col_lower col) then (AList.update col ''region'' m, True)
      else region_partial_loop cols m)"

fun region_last_resort_loop :: "string list \<Rightarrow> mapping \<Rightarrow> mapping" where
  "region_last_resort_loop [] m = m"
| "region_last_resort_loop (col # cols) m =
     (if col_lower col \<in> set [''state'', ''country''] then AList.update col ''region'' m
      else region_last_resort_loop cols m)"

definition region_block :: "string list \<Rightarrow> mapping \<Rightarrow> mapping" where
  "region_block cols m =
     (let (m1, found1) = region_exact_loop cols m;
          (m2, found2) = (if \<not> found1 then region_partial_loop cols m1 else (m1, found1))
      in if \<not> found2 then region_last_resort_loop cols m2 else m2)"

fun revenue_loop :: "string list \<Rightarrow> mapping \<Rightarrow> mapping" where
  "revenue_loop [] m = m"
| "revenue_loop (col # cols) m =
     (let cl = col_lower col in
      if cl = ''sales'' then AList.update col ''revenue'' m
      else if contains ''sales'' cl \<and> ''revenue'' \<notin> set (values_of m)
      then AList.update col ''revenue'' m
      else if cl \<in> set [''revenue'', ''amount'', ''total''] \<and> ''revenue'' \<notin> set (values_of m)
      then AList.update col ''revenue'' m
      else revenue_loop cols m)"

fun quantity_loop :: "string list \<Rightarrow> mapping \<Rightarrow> mapping" where
  "quantity_loop [] m = m"
| "quantity_loop (col # cols) m =
     (let cl = col_lower col in
      if cl = ''quantity'' then AList.update col ''quantity'' m
      else if contains ''quantity'' cl \<or> cl \<in> set [''qty'', ''units'']
      then AList.update col ''quantity'' m
      else quantity_loop cols m)"

text \<open>The dict built by the five blocks, in the order of the source.\<close>

definition column_mapping :: "string list \<Rightarrow> mapping" where
  "column_mapping df_columns =
     quantity_loop df_columns
       (revenue_loop df_columns
         (region_block df_columns
           (product_loop df_columns
             (date_loop df_columns []))))"

text \<open>
  \<open>df.rename(columns=column_mapping)\<close> on the column labels: a label that is a key of
  the dict is replaced by its value, any other label passes through. The function returns
  the renamed labels and the dict; with an empty dict the labels are returned as they are.
\<close>

definition rename_columns :: "mapping \<Rightarrow> string list \<Rightarrow> string list" where
  "rename_columns m cols = map (\<lambda>c. case map_of m c of Some v \<Rightarrow> v | None \<Rightarrow> c) cols"

definition map_column_names :: "string list \<Rightarrow> string list \<times> mapping" where
  "map_column_names df_columns =
     (let m = column_mapping df_columns
      in if m \<noteq> [] then (rename_columns m df_columns, m) else (df_columns, []))"

text \<open>
  \<open>region_only c0 m\<close>: in the dict \<open>m\<close> no key other than \<open>c0\<close> has the value
  \<open>region\<close>.
\<close>

definition region_only :: "string \<Rightarrow> mapping \<Rightarrow> bool" where
  "region_only c0 m \<longleftrightarrow> (\<forall>c. map_of m c = Some ''region'' \<longrightarrow> c = c0)"


section \<open>Tables\<close>

text \<open>
  A pandas DataFrame is modelled as its column labels, each with the dtype of its column,
  and its rows. A cell is a missing value (\<open>NaN\<close>, \<open>None\<close> and \<open>NaT\<close> alike: what
  \<open>isnull()\<close> reports), a number, a text or a calendar date (year, month, day).

  Numbers are exact rationals: the rounding of float64 and the wrap-around of int64 are
  not modelled, and \<open>int64\<close> and \<open>float64\<close> are one dtype \<open>Number\<close>. The row index is
  not modelled; no operation below reads it.
\<close>

datatype cell = NA | Num rat | Str string | Date int nat nat

datatype dtype = Number | Object | Datetime

record frame =
  columns :: "(string \<times> dtype) list"
  rows :: "cell list list"

definition isnull :: "cell \<Rightarrow> bool" where
  "isnull c = (c = NA)"

text \<open>\<open>name in df.columns\<close>.\<close>

definition has_column :: "frame \<Rightarrow> string \<Rightarrow> bool" where
  "has_column df name = (name \<in> set (map fst (columns df)))"

fun index_of :: "string \<Rightarrow> (string \<times> dtype) list \<Rightarrow> nat option" where
  "index_of name [] = None"
| "index_of name ((n, t) # cs) =
     (if n = name then Some 0 else map_option Suc (index_of name cs))"

definition cell_at :: "cell list \<Rightarrow> nat \<Rightarrow> cell" where
  "cell_at r i = (if i < length r then r ! i else NA)"

text \<open>
  \<open>df[name]\<close>, the cells of a column from the first row to the last. The functions below
  read a column only after testing that it is there.
\<close>

definition series :: "frame \<Rightarrow> string \<Rightarrow> cell list" where
  "series df name =
     (case index_of name (columns df) of
        None \<Rightarrow> []
      | Some i \<Rightarrow> map (\<lambda>r. cell_at r i) (rows df))"

definition dtype_of :: "frame \<Rightarrow> string \<Rightarrow> dtype option" where
  "dtype_of df name = map_of (columns df) name"

text \<open>
  \<open>df[name] = values\<close>: an existing column is replaced in place, a new one is added
  after the last column.
\<close>

definition set_series :: "string \<Rightarrow> dtype \<Rightarrow> cell list \<Rightarrow> frame \<Rightarrow> frame" where
  "set_series name t cells df =
     (case index_of name (columns df) of
        Some i \<Rightarrow>
          df\<lparr>columns := (columns df)[i := (name, t)],
             rows := map (\<lambda>(r, c). r[i := c]) (zip (rows df) cells)\<rparr>
      | None \<Rightarrow>
          df\<lparr>columns := columns df @ [(name, t)],
             rows := map (\<lambda>(r, c). r @ [c]) (zip (rows df) cells)\<rparr>)"

text \<open>
  A table is well formed when its labels are distinct, every row has one cell per column
  and every cell has the kind of its column's dtype.
\<close>

fun cell_fits :: "dtype \<Rightarrow> cell \<Rightarrow> bool" where
  "cell_fits t NA = True"
| "cell_fits Number (Num x) = True"
| "cell_fits Object (Str s) = True"
| "cell_fits Datetime (Date y m d) = True"
| "cell_fits t c = False"

definition well_formed :: "frame \<Rightarrow> bool" where
  "well_formed df \<longleftrightarrow>
     distinct (map fst (columns df)) \<and>
     list_all (\<lambda>r. length r = length (columns df) \<and>
                   list_all (\<lambda>(t, c). cell_fits t c) (zip (map snd (columns df)) r))
              (rows df)"

text \<open>
  Replacing the cells of the column at position \<open>i\<close> by a function of that column, as
  the in-place \<open>fillna\<close> and \<open>interpolate\<close> on \<open>df[col]\<close> do.
\<close>

definition map_column :: "nat \<Rightarrow> (cell list \<Rightarrow> cell list) \<Rightarrow> frame \<Rightarrow> frame" where
  "map_column i g df =
     df\<lparr>rows := map (\<lambda>(r, c). r[i := c])
                     (zip (rows df) (g (map (\<lambda>r. cell_at r i) (rows df))))\<rparr>"


section \<open>What is taken from pandas as given\<close>

text \<open>
  The exceptions of the program. \<open>ValueError\<close> is what the analyzer raises itself;
  \<open>KeyError\<close> is what pandas raises when \<open>groupby\<close> is given a label that is no column;
  \<open>ParseError\<close> stands for whatever \<open>pd.to_datetime\<close> raises on a value it cannot read.
\<close>

datatype error = ValueError string | KeyError string | ParseError

text \<open>
  How pandas reads text is not part of this repository, so it is a parameter of the model:
  \<^item> \<open>to_datetime\<close> is \<open>pd.to_datetime(column, errors='coerce')\<close> on a column that is
    not yet of dtype datetime,
  \<^item> \<open>to_datetime_strict\<close> is \<open>pd.to_datetime(column)\<close> on such a column, which raises
    on a value it cannot read,
  \<^item> \<open>to_numeric\<close> is \<open>pd.to_numeric(column, errors='coerce')\<close> on a column that is not
    yet numeric,
  \<^item> \<open>py_str\<close> is \<open>str(x)\<close> for a cell that is not already a text.
  On a column that already has the target dtype pandas returns the values as they are, and
  the model says so without consulting the parameter.
\<close>

record pandas =
  to_datetime :: "cell list \<Rightarrow> cell list"
  to_datetime_strict :: "cell list \<Rightarrow> error + cell list"
  to_numeric :: "cell list \<Rightarrow> cell list"
  py_str :: "cell \<Rightarrow> string"

text \<open>
  An instance for evaluating examples: no text is read as a date or as a number, and a
  missing value prints as \<open>nan\<close>. The examples below consult it on no text.
\<close>

definition reads_nothing :: pandas where
  "reads_nothing =
     \<lparr>to_datetime = map (\<lambda>c. NA),
      to_datetime_strict = (\<lambda>cells. Inl ParseError),
      to_numeric = map (\<lambda>c. NA),
      py_str = (\<lambda>c. ''nan'')\<rparr>"


section \<open>DataCleaner (scripts/data\_cleaner.py)\<close>

subsection \<open>\<open>remove_duplicates\<close>\<close>

text \<open>
  \<open>df.drop_duplicates()\<close> keeps the first of equal rows, and two missing values count as
  equal. \<open>seen\<close> holds the rows kept so far.
\<close>

fun drop_dups :: "cell list list \<Rightarrow> cell list list \<Rightarrow> cell list list" where
  "drop_dups seen [] = []"
| "drop_dups seen (r # rs) =
     (if r \<in> set seen then drop_dups seen rs else r # drop_dups (r # seen) rs)"

definition remove_duplicates :: "frame \<Rightarrow> frame" where
  "remove_duplicates df = df\<lparr>rows := drop_dups [] (rows df)\<rparr>"


subsection \<open>\<open>handle_missing_values\<close>\<close>

text \<open>\<open>df.isnull().sum().sum()\<close>.\<close>

definition count_missing :: "frame \<Rightarrow> nat" where
  "count_missing df = sum_list (map (\<lambda>r. length (filter isnull r)) (rows df))"

definition dropna :: "frame \<Rightarrow> frame" where
  "dropna df = df\<lparr>rows := filter (\<lambda>r. \<not> list_ex isnull r) (rows df)\<rparr>"

definition nums :: "cell list \<Rightarrow> rat list" where
  "nums cells = concat (map (\<lambda>c. case c of Num x \<Rightarrow> [x] | _ \<Rightarrow> []) cells)"

definition texts :: "cell list \<Rightarrow> string list" where
  "texts cells = concat (map (\<lambda>c. case c of Str s \<Rightarrow> [s] | _ \<Rightarrow> []) cells)"

text \<open>
  \<open>Series.median()\<close> skips missing values; of no value it is \<open>NaN\<close>. Of an even number
  of values it is the mean of the two middle ones.
\<close>

definition median :: "cell list \<Rightarrow> cell" where
  "median cells =
     (let vs = sort (nums cells); n = length vs
      in if n = 0 then NA
         else if odd n then Num (vs ! (n div 2))
         else Num ((vs ! (n div 2 - 1) + vs ! (n div 2)) / 2))"

text \<open>
  \<open>Series.mode()\<close> lists the most frequent values, missing ones left out, in ascending
  order; the program takes entry 0, or \<open>Unknown\<close> when the list is empty. Text is ordered
  as Python orders \<open>str\<close>: by code points, a proper prefix first.
\<close>

definition mode_value :: "cell list \<Rightarrow> cell" where
  "mode_value cells =
     (let ss = texts cells;
          top = fold max (map (count_list ss) ss) 0
      in case sort (filter (\<lambda>s. count_list ss s = top) ss) of
           [] \<Rightarrow> Str ''Unknown''
         | s # rest \<Rightarrow> Str s)"

text \<open>\<open>fillna(value)\<close>; filling with \<open>NaN\<close> changes nothing.\<close>

definition fillna :: "cell \<Rightarrow> cell list \<Rightarrow> cell list" where
  "fillna v cells = map (\<lambda>c. if isnull c then v else c) cells"

definition fill_median :: "cell list \<Rightarrow> cell list" where
  "fill_median cells = (if list_ex isnull cells then fillna (median cells) cells else cells)"

definition fill_mode :: "cell list \<Rightarrow> cell list" where
  "fill_mode cells = (if list_ex isnull cells then fillna (mode_value cells) cells else cells)"

text \<open>
  \<open>interpolate(method='linear')\<close> treats the rows as equally spaced. A missing cell
  between two numbers lies on the line through them; missing cells after the last number
  take its value; missing cells before the first number stay missing.
\<close>

fun is_number :: "cell \<Rightarrow> bool" where
  "is_number (Num x) = True"
| "is_number c = False"

fun last_number :: "cell list \<Rightarrow> nat \<Rightarrow> (nat \<times> rat) option" where
  "last_number cells 0 = None"
| "last_number cells (Suc j) =
     (case cell_at cells j of Num x \<Rightarrow> Some (j, x) | _ \<Rightarrow> last_number cells j)"

definition next_number :: "cell list \<Rightarrow> nat \<Rightarrow> (nat \<times> rat) option" where
  "next_number cells i =
     (case filter (\<lambda>k. is_number (cell_at cells k)) [Suc i..<length cells] of
        [] \<Rightarrow> None
      | k # ks \<Rightarrow> (case cell_at cells k of Num x \<Rightarrow> Some (k, x) | _ \<Rightarrow> None))"

definition interpolate_at :: "cell list \<Rightarrow> nat \<Rightarrow> cell" where
  "interpolate_at cells i =
     (if isnull (cell_at cells i) then
        (case last_number cells i of
           None \<Rightarrow> NA
         | Some (j, a) \<Rightarrow>
            (case next_number cells i of
               None \<Rightarrow> Num a
             | Some (k, b) \<Rightarrow> Num (a + (b - a) * (of_nat (i - j) / of_nat (k - j)))))
      else cell_at cells i)"

definition interpolate_linear :: "cell list \<Rightarrow> cell list" where
  "interpolate_linear cells =
     (if list_ex isnull cells then map (interpolate_at cells) [0..<length cells] else cells)"

text \<open>
  The loops over \<open>select_dtypes(...).columns\<close>: every column of the dtype, from left to
  right, each rewritten in place in the running table.
\<close>

definition for_columns_of :: "dtype \<Rightarrow> (cell list \<Rightarrow> cell list) \<Rightarrow> frame \<Rightarrow> frame" where
  "for_columns_of t g df =
     fold (\<lambda>i d. if snd (columns df ! i) = t then map_column i g d else d)
          [0..<length (columns df)] df"

definition fill_strategy :: "frame \<Rightarrow> frame" where
  "fill_strategy df = for_columns_of Object fill_mode (for_columns_of Number fill_median df)"

definition interpolate_strategy :: "frame \<Rightarrow> frame" where
  "interpolate_strategy df = for_columns_of Number interpolate_linear df"

text \<open>
  The function has no \<open>raise\<close>: every path returns a table, written \<open>Inr\<close>. A strategy
  that is none of the three names falls through the \<open>if\<close>/\<open>elif\<close> chain, which has no
  \<open>else\<close>, and the copy is returned as it was made.
\<close>

definition handle_missing_values :: "frame \<Rightarrow> string \<Rightarrow> error + frame" where
  "handle_missing_values df strategy =
     (let initial_missing = count_missing df in
      if initial_missing = 0 then Inr df
      else
        (let df_cleaned = df in
         if strategy = ''drop'' then Inr (dropna df_cleaned)
         else if strategy = ''fill'' then Inr (fill_strategy df_cleaned)
         else if strategy = ''interpolate'' then Inr (interpolate_strategy df_cleaned)
         else Inr df_cleaned))"

subsection \<open>\<open>fix_data_types\<close>\<close>

definition coerce_datetime :: "pandas \<Rightarrow> dtype option \<Rightarrow> cell list \<Rightarrow> cell list" where
  "coerce_datetime L t cells = (if t = Some Datetime then cells else to_datetime L cells)"

definition coerce_numeric :: "pandas \<Rightarrow> dtype option \<Rightarrow> cell list \<Rightarrow> cell list" where
  "coerce_numeric L t cells = (if t = Some Number then cells else to_numeric L cells)"

text \<open>\<open>astype(str)\<close> applies \<open>str\<close> to every cell, the missing ones too.\<close>

definition astype_str :: "pandas \<Rightarrow> cell list \<Rightarrow> cell list" where
  "astype_str L cells = map (\<lambda>c. case c of Str s \<Rightarrow> Str s | _ \<Rightarrow> Str (py_str L c)) cells"

definition fix_date :: "pandas \<Rightarrow> frame \<Rightarrow> frame" where
  "fix_date L df =
     (if has_column df ''date''
      then set_series ''date'' Datetime
             (coerce_datetime L (dtype_of df ''date'') (series df ''date'')) df
      else df)"

definition fix_numeric :: "pandas \<Rightarrow> string \<Rightarrow> frame \<Rightarrow> frame" where
  "fix_numeric L col df =
     (if has_column df col
      then set_series col Number (coerce_numeric L (dtype_of df col) (series df col)) df
      else df)"

definition fix_categorical :: "pandas \<Rightarrow> string \<Rightarrow> frame \<Rightarrow> frame" where
  "fix_categorical L col df =
     (if has_column df col
      then set_series col Object (astype_str L (series df col)) df
      else df)"

definition fix_data_types :: "pandas \<Rightarrow> frame \<Rightarrow> frame" where
  "fix_data_types L df =
     (let df_cleaned = df;
          df_cleaned = fix_date L df_cleaned;
          df_cleaned = fold (fix_numeric L) [''revenue'', ''quantity''] df_cleaned;
          df_cleaned = fold (fix_categorical L) [''product'', ''region''] df_cleaned
      in df_cleaned)"

subsection \<open>\<open>clean_all\<close>\<close>

definition clean_all :: "pandas \<Rightarrow> frame \<Rightarrow> string \<Rightarrow> error + frame" where
  "clean_all L df handle_missing_strategy =
     (let df_cleaned = df;
          df_cleaned = remove_duplicates df_cleaned;
          df_cleaned = fix_data_types L df_cleaned
      in handle_missing_values df_cleaned handle_missing_strategy)"


section \<open>Example tables\<close>

definition sample_gap :: frame where
  "sample_gap = \<lparr>columns = [(''product'', Object), (''revenue'', Number)],
                  rows = [[Str ''A'', Num 2], [Str ''A'', NA]]\<rparr>"

definition sample_filled :: frame where
  "sample_filled = \<lparr>columns = [(''product'', Object), (''revenue'', Number)],
                     rows = [[Str ''A'', Num 2], [Str ''A'', Num 2]]\<rparr>"

definition sample_full :: frame where
  "sample_full = \<lparr>columns = [(''product'', Object), (''revenue'', Number)],
                   rows = [[Str ''A'', Num 2], [Str ''B'', Num 3]]\<rparr>"


section \<open>Floating-point results\<close>

text \<open>
  A division can leave the rationals: pandas divides by zero without raising and yields
  \<open>inf\<close>, \<open>-inf\<close> or \<open>NaN\<close>. The results of divisions are therefore values of \<open>fval\<close>,
  with the arithmetic of IEEE 754 on the special values and exact arithmetic on the finite
  ones. Zero has no sign in this model.
\<close>

datatype fval = Fin rat | PosInf | NegInf | NaN

fun fneg :: "fval \<Rightarrow> fval" where
  "fneg (Fin a) = Fin (- a)"
| "fneg PosInf = NegInf"
| "fneg NegInf = PosInf"
| "fneg NaN = NaN"

fun fadd :: "fval \<Rightarrow> fval \<Rightarrow> fval" where
  "fadd (Fin a) (Fin b) = Fin (a + b)"
| "fadd NaN y = NaN"
| "fadd x NaN = NaN"
| "fadd PosInf NegInf = NaN"
| "fadd NegInf PosInf = NaN"
| "fadd PosInf y = PosInf"
| "fadd NegInf y = NegInf"
| "fadd x PosInf = PosInf"
| "fadd x NegInf = NegInf"

definition fsub :: "fval \<Rightarrow> fval \<Rightarrow> fval" where
  "fsub x y = fadd x (fneg y)"

definition signed_inf :: "bool \<Rightarrow> fval" where
  "signed_inf positive = (if positive then PosInf else NegInf)"

fun fmul :: "fval \<Rightarrow> fval \<Rightarrow> fval" where
  "fmul (Fin a) (Fin b) = Fin (a * b)"
| "fmul NaN y = NaN"
| "fmul x NaN = NaN"
| "fmul (Fin a) PosInf = (if a = 0 then NaN else signed_inf (0 < a))"
| "fmul (Fin a) NegInf = (if a = 0 then NaN else signed_inf (a < 0))"
| "fmul PosInf (Fin b) = (if b = 0 then NaN else signed_inf (0 < b))"
| "fmul NegInf (Fin b) = (if b = 0 then NaN else signed_inf (b < 0))"
| "fmul PosInf PosInf = PosInf"
| "fmul NegInf NegInf = PosInf"
| "fmul PosInf NegInf = NegInf"
| "fmul NegInf PosInf = NegInf"

fun fdiv :: "fval \<Rightarrow> fval \<Rightarrow> fval" where
  "fdiv (Fin a) (Fin b) =
     (if b = 0 then (if a = 0 then NaN else signed_inf (0 < a)) else Fin (a / b))"
| "fdiv NaN y = NaN"
| "fdiv x NaN = NaN"
| "fdiv (Fin a) PosInf = Fin 0"
| "fdiv (Fin a) NegInf = Fin 0"
| "fdiv PosInf (Fin b) = signed_inf (0 \<le> b)"
| "fdiv NegInf (Fin b) = signed_inf (b < 0)"
| "fdiv PosInf y = NaN"
| "fdiv NegInf y = NaN"

text \<open>A cell read as a float: a missing value is \<open>NaN\<close>.\<close>

fun float_of :: "cell \<Rightarrow> fval" where
  "float_of (Num x) = Fin x"
| "float_of c = NaN"

text \<open>\<open>fillna(0)\<close> on a float column replaces \<open>NaN\<close> and nothing else.\<close>

fun fillna0 :: "fval \<Rightarrow> fval" where
  "fillna0 NaN = Fin 0"
| "fillna0 x = x"

text \<open>\<open>mean()\<close> skips \<open>NaN\<close>; of no value it is \<open>NaN\<close>.\<close>

definition fmean :: "fval list \<Rightarrow> fval" where
  "fmean xs =
     (let vs = filter (\<lambda>x. x \<noteq> NaN) xs
      in if vs = [] then NaN else fdiv (fold (\<lambda>x acc. fadd acc x) vs (Fin 0)) (Fin (of_nat (length vs))))"


section \<open>Grouping and sorting\<close>

text \<open>
  \<open>groupby(key)\<close> drops the rows whose key is missing and lists the groups in ascending
  order of the key; each group holds its rows in their original order. \<open>ord\<close> gives the
  order of the keys.
\<close>

definition groupby :: "('a \<Rightarrow> 'k::linorder) \<Rightarrow> ('a option \<times> 'b) list \<Rightarrow> ('a \<times> 'b list) list" where
  "groupby ord keyed =
     map (\<lambda>k. (k, map snd (filter (\<lambda>(k', v). k' = Some k) keyed)))
         (sort_key ord (remdups (concat (map (\<lambda>(k', v). case k' of None \<Rightarrow> [] | Some a \<Rightarrow> [a]) keyed))))"

text \<open>
  An order on cells for the group keys: numbers by value, texts as Python orders \<open>str\<close>,
  dates by calendar. Keys of different kinds do not occur in a well-formed column.
\<close>

fun cell_key :: "cell \<Rightarrow> nat \<times> rat \<times> string \<times> int \<times> nat \<times> nat" where
  "cell_key NA = (0, 0, [], 0, 0, 0)"
| "cell_key (Num x) = (1, x, [], 0, 0, 0)"
| "cell_key (Str s) = (2, 0, s, 0, 0, 0)"
| "cell_key (Date y m d) = (3, 0, [], y, m, d)"

definition key_of :: "cell \<Rightarrow> cell option" where
  "key_of c = (if isnull c then None else Some c)"

text \<open>
  \<open>df.groupby(by)[col].sum()\<close>: per group the sum of the numbers of \<open>col\<close>, missing
  values skipped.
\<close>

definition groupby_sum :: "cell list \<Rightarrow> cell list \<Rightarrow> (cell \<times> rat) list" where
  "groupby_sum keys vals =
     map (\<lambda>(k, vs). (k, sum_list (nums vs))) (groupby cell_key (zip (map key_of keys) vals))"

text \<open>
  \<open>sort_values(ascending=False)\<close>. pandas reverses the rows, sorts them in ascending
  order and reverses the result, so with a stable sort equal values keep their order. The
  default sort of pandas is not guaranteed to be stable; no statement below depends on the
  order among equal values.
\<close>

definition sort_descending :: "('a \<Rightarrow> rat) \<Rightarrow> 'a list \<Rightarrow> 'a list" where
  "sort_descending f xs = rev (sort_key f (rev xs))"

text \<open>\<open>head(n)\<close>: the first \<open>n\<close> rows, or all but the last \<open>-n\<close> when \<open>n\<close> is negative.\<close>

definition head :: "int \<Rightarrow> 'a list \<Rightarrow> 'a list" where
  "head n xs = (if 0 \<le> n then take (nat n) xs else take (length xs - nat (- n)) xs)"


section \<open>DataAnalyzer (scripts/data\_analyzer.py)\<close>

text \<open>
  The analyzer holds the table it copied at construction. Its arithmetic is modelled for
  numeric columns, whose cells are numbers or missing, which is what \<open>fix_data_types\<close>
  leaves in \<open>revenue\<close>; a cell that is no number counts as missing.
\<close>

record analyzer =
  self_df :: frame

definition DataAnalyzer :: "frame \<Rightarrow> analyzer" where
  "DataAnalyzer df = \<lparr>self_df = df\<rparr>"

text \<open>The messages of the \<open>ValueError\<close>s quote the column names with \<open>'\<close>.\<close>

definition quoted :: "string \<Rightarrow> string" where
  "quoted s = CHR 0x27 # s @ [CHR 0x27]"

definition required_columns_message :: "string \<Rightarrow> string \<Rightarrow> string" where
  "required_columns_message a b =
     ''Required columns '' @ quoted a @ '' and '' @ quoted b @ '' not found''"

definition calculate_total_revenue :: "analyzer \<Rightarrow> error + rat" where
  "calculate_total_revenue self =
     (if \<not> has_column (self_df self) ''revenue''
      then Inl (ValueError (quoted ''revenue'' @ '' column not found in dataframe''))
      else Inr (sum_list (nums (series (self_df self) ''revenue''))))"

definition get_top_products :: "analyzer \<Rightarrow> int \<Rightarrow> error + (cell \<times> rat) list" where
  "get_top_products self n =
     (if \<not> has_column (self_df self) ''product'' \<or> \<not> has_column (self_df self) ''revenue''
      then Inl (ValueError (required_columns_message ''product'' ''revenue''))
      else Inr (head n (sort_descending snd
                  (groupby_sum (series (self_df self) ''product'')
                               (series (self_df self) ''revenue'')))))"

definition get_region_wise_revenue :: "analyzer \<Rightarrow> error + (cell \<times> rat) list" where
  "get_region_wise_revenue self =
     (if \<not> has_column (self_df self) ''region'' \<or> \<not> has_column (self_df self) ''revenue''
      then Inl (ValueError (required_columns_message ''region'' ''revenue''))
      else Inr (sort_descending snd
                  (groupby_sum (series (self_df self) ''region'')
                               (series (self_df self) ''revenue''))))"

subsection \<open>\<open>calculate_monthly_growth_rate\<close>\<close>

text \<open>
  \<open>pd.to_datetime(column)\<close> without \<open>errors='coerce'\<close>: a datetime column is returned
  as it is, on any other column the reading may raise.
\<close>

definition to_datetime_or_raise :: "pandas \<Rightarrow> dtype option \<Rightarrow> cell list \<Rightarrow> error + cell list" where
  "to_datetime_or_raise L t cells =
     (if t = Some Datetime then Inr cells else to_datetime_strict L cells)"

text \<open>\<open>dt.to_period('M')\<close>: the year and month of a date, missing for \<open>NaT\<close>.\<close>

fun to_period :: "cell \<Rightarrow> (int \<times> nat) option" where
  "to_period (Date y m d) = Some (y, m)"
| "to_period c = None"

text \<open>
  \<open>str\<close> of a monthly period is \<open>YYYY-MM\<close>. The years of a pandas timestamp lie between
  1677 and 2262.
\<close>

definition digit :: "nat \<Rightarrow> char" where
  "digit n = char_of (48 + n)"

fun decimal :: "nat \<Rightarrow> string" where
  "decimal n = (if n < 10 then [digit n] else decimal (n div 10) @ [digit (n mod 10)])"

definition zero_pad :: "nat \<Rightarrow> string \<Rightarrow> string" where
  "zero_pad w s = replicate (w - length s) (CHR ''0'') @ s"

definition period_str :: "int \<times> nat \<Rightarrow> string" where
  "period_str p = zero_pad 4 (decimal (nat (fst p))) @ ''-'' @ zero_pad 2 (decimal (snd p))"

text \<open>
  \<open>pct_change()\<close> is \<open>data / data.shift(1) - 1\<close>: the first entry has no predecessor and
  is \<open>NaN\<close>. The monthly sums are finite numbers, so the padding of missing values that
  \<open>pct_change\<close> does first changes nothing.
\<close>

fun pct_change_from :: "rat \<Rightarrow> rat list \<Rightarrow> fval list" where
  "pct_change_from prev [] = []"
| "pct_change_from prev (x # xs) =
     fsub (fdiv (Fin x) (Fin prev)) (Fin 1) # pct_change_from x xs"

fun pct_change :: "rat list \<Rightarrow> fval list" where
  "pct_change [] = []"
| "pct_change (x # xs) = NaN # pct_change_from x xs"

definition growth_rate :: "rat list \<Rightarrow> fval list" where
  "growth_rate revenue = map fillna0 (map (\<lambda>g. fmul g (Fin 100)) (pct_change revenue))"

definition monthly_revenue :: "cell list \<Rightarrow> cell list \<Rightarrow> ((int \<times> nat) \<times> rat) list" where
  "monthly_revenue dates revenue =
     map (\<lambda>(k, vs). (k, sum_list (nums vs))) (groupby id (zip (map to_period dates) revenue))"

definition calculate_monthly_growth_rate ::
    "pandas \<Rightarrow> analyzer \<Rightarrow> error + (string \<times> rat \<times> fval) list" where
  "calculate_monthly_growth_rate L self =
     (if \<not> has_column (self_df self) ''date'' \<or> \<not> has_column (self_df self) ''revenue''
      then Inl (ValueError (required_columns_message ''date'' ''revenue''))
      else
        (let df_temp = self_df self in
         case to_datetime_or_raise L (dtype_of df_temp ''date'') (series df_temp ''date'') of
           Inl e \<Rightarrow> Inl e
         | Inr dates \<Rightarrow>
            (let monthly = monthly_revenue dates (series df_temp ''revenue'');
                 month = map (\<lambda>(k, r). period_str k) monthly;
                 revenue = map snd monthly
             in Inr (zip month (zip revenue (growth_rate revenue))))))"

subsection \<open>\<open>calculate_profit_margin\<close>\<close>

text \<open>
  The three derived columns, row by row. \<open>0.6\<close> is read as the rational \<open>3/5\<close>.
  A supplied cost column is used when the name is a non-empty string and a column of the
  table; \<open>groupby('product')\<close> raises \<open>KeyError\<close> when there is no such column.
\<close>

definition cost_series :: "frame \<Rightarrow> string option \<Rightarrow> fval list" where
  "cost_series df_temp cost_column =
     (case cost_column of
        Some c \<Rightarrow>
          (if c \<noteq> [] \<and> has_column df_temp c then map float_of (series df_temp c)
           else map (\<lambda>r. fmul (float_of r) (Fin (3 / 5))) (series df_temp ''revenue''))
      | None \<Rightarrow> map (\<lambda>r. fmul (float_of r) (Fin (3 / 5))) (series df_temp ''revenue''))"

definition profit_rows :: "frame \<Rightarrow> string option \<Rightarrow> (fval \<times> fval \<times> fval \<times> fval) list" where
  "profit_rows df_temp cost_column =
     map (\<lambda>(r, c).
            (let revenue = float_of r;
                 cost = c;
                 profit = fsub revenue cost;
                 profit_margin = fmul (fdiv profit revenue) (Fin 100)
             in (revenue, cost, profit, profit_margin)))
         (zip (series df_temp ''revenue'') (cost_series df_temp cost_column))"

text \<open>\<open>sum\<close> of a float column skips \<open>NaN\<close>; the sum of no value is 0.\<close>

definition fsum :: "fval list \<Rightarrow> fval" where
  "fsum xs = fold (\<lambda>x acc. fadd acc x) (filter (\<lambda>x. x \<noteq> NaN) xs) (Fin 0)"

text \<open>
  Sorting by a float column in descending order puts \<open>NaN\<close> last, \<open>inf\<close> first and
  \<open>-inf\<close> after every finite value.
\<close>

fun fval_rank :: "fval \<Rightarrow> nat \<times> rat" where
  "fval_rank NegInf = (0, 0)"
| "fval_rank (Fin a) = (1, a)"
| "fval_rank PosInf = (2, 0)"
| "fval_rank NaN = (3, 0)"

definition sort_descending_float :: "('a \<Rightarrow> fval) \<Rightarrow> 'a list \<Rightarrow> 'a list" where
  "sort_descending_float f xs =
     rev (sort_key (\<lambda>x. fval_rank (f x)) (rev (filter (\<lambda>x. f x \<noteq> NaN) xs)))
     @ filter (\<lambda>x. f x = NaN) xs"

definition calculate_profit_margin ::
    "analyzer \<Rightarrow> string option \<Rightarrow> error + (cell \<times> fval \<times> fval \<times> fval \<times> fval) list" where
  "calculate_profit_margin self cost_column =
     (if \<not> has_column (self_df self) ''revenue''
      then Inl (ValueError (quoted ''revenue'' @ '' column not found''))
      else
        (let df_temp = self_df self;
             derived = profit_rows df_temp cost_column
         in if \<not> has_column df_temp ''product'' then Inl (KeyError ''product'')
            else
              (let profit_analysis =
                     map (\<lambda>(k, g).
                            (k, fsum (map (\<lambda>(r, c, p, m). r) g),
                                fsum (map (\<lambda>(r, c, p, m). c) g),
                                fsum (map (\<lambda>(r, c, p, m). p) g),
                                fmean (map (\<lambda>(r, c, p, m). m) g)))
                         (groupby cell_key (zip (map key_of (series df_temp ''product'')) derived))
               in Inr (sort_descending_float (\<lambda>(k, r, c, p, m). p) profit_analysis))))"


section \<open>Notions used in the statements about the analyzer\<close>













text \<open>
  The margin of one row as the specification gives it, \<open>profit / revenue * 100\<close> with
  \<open>profit = revenue - cost\<close>, and the revenues of the rows of one product.
\<close>

definition row_margin :: "rat \<Rightarrow> rat \<Rightarrow> fval" where
  "row_margin revenue cost = fmul (fdiv (Fin (revenue - cost)) (Fin revenue)) (Fin 100)"




definition sample_costs :: frame where
  "sample_costs = \<lparr>columns = [(''product'', Object), (''revenue'', Number), (''cost'', Number)],
                    rows = [[Str ''A'', Num 100, Num 50], [Str ''A'', Num 300, Num 0]]\<rparr>"


section \<open>The remaining operations\<close>

subsection \<open>\<open>remove_outliers\<close> (DataCleaner)\<close>

text \<open>
  \<open>Series.quantile(q)\<close> with linear interpolation between the two nearest of the sorted
  numbers; of no number it is \<open>NaN\<close>, here \<open>None\<close>.
\<close>

definition quantile :: "rat \<Rightarrow> cell list \<Rightarrow> rat option" where
  "quantile q cells =
     (let vs = sort (nums cells); n = length vs
      in if n = 0 then None
         else
           (let pos = q * of_nat (n - 1);
                lo = nat \<lfloor>pos\<rfloor>;
                hi = min (lo + 1) (n - 1)
            in Some (vs ! lo + (vs ! hi - vs ! lo) * (pos - of_nat lo))))"

text \<open>
  \<open>mean()\<close> and the square of \<open>std()\<close>, the sample variance, which needs two numbers.
  The test \<open>std > 0\<close> is the test that the variance is positive, and \<open>|x - mean| / std < 3\<close>
  is \<open>(x - mean)\<^sup>2 < 9 * variance\<close>, so no square root is taken.
\<close>

definition mean :: "cell list \<Rightarrow> rat option" where
  "mean cells =
     (let vs = nums cells
      in if vs = [] then None else Some (sum_list vs / of_nat (length vs)))"

definition variance :: "cell list \<Rightarrow> rat option" where
  "variance cells =
     (let vs = nums cells
      in case mean cells of
           None \<Rightarrow> None
         | Some mu \<Rightarrow>
            (if length vs < 2 then None
             else Some (sum_list (map (\<lambda>x. (x - mu) * (x - mu)) vs) / of_nat (length vs - 1))))"

text \<open>
  A comparison with \<open>NaN\<close> is false, so a row whose cell is missing, or any row when the
  bound is \<open>NaN\<close>, is not kept by the mask.
\<close>

definition inside_bounds :: "rat option \<Rightarrow> rat option \<Rightarrow> cell \<Rightarrow> bool" where
  "inside_bounds lower_bound upper_bound c =
     (case (lower_bound, upper_bound, c) of
        (Some lo, Some hi, Num x) \<Rightarrow> lo \<le> x \<and> x \<le> hi
      | _ \<Rightarrow> False)"

definition select_rows :: "(cell \<Rightarrow> bool) \<Rightarrow> string \<Rightarrow> frame \<Rightarrow> frame" where
  "select_rows keep column df =
     df\<lparr>rows := map fst (filter (\<lambda>(r, c). keep c) (zip (rows df) (series df column)))\<rparr>"

definition iqr_filter :: "string \<Rightarrow> frame \<Rightarrow> frame" where
  "iqr_filter column df_cleaned =
     (let Q1 = quantile (1 / 4) (series df_cleaned column);
          Q3 = quantile (3 / 4) (series df_cleaned column);
          IQR = (case (Q1, Q3) of (Some a, Some b) \<Rightarrow> Some (b - a) | _ \<Rightarrow> None);
          lower_bound = (case (Q1, IQR) of (Some a, Some i) \<Rightarrow> Some (a - 3 / 2 * i) | _ \<Rightarrow> None);
          upper_bound = (case (Q3, IQR) of (Some b, Some i) \<Rightarrow> Some (b + 3 / 2 * i) | _ \<Rightarrow> None)
      in select_rows (inside_bounds lower_bound upper_bound) column df_cleaned)"

definition std_positive :: "string \<Rightarrow> frame \<Rightarrow> bool" where
  "std_positive column df_cleaned =
     (case variance (series df_cleaned column) of Some v \<Rightarrow> 0 < v | None \<Rightarrow> False)"

definition zscore_filter :: "string \<Rightarrow> frame \<Rightarrow> frame" where
  "zscore_filter column df_cleaned =
     (case (mean (series df_cleaned column), variance (series df_cleaned column)) of
        (Some mu, Some v) \<Rightarrow>
          select_rows (\<lambda>c. case c of Num x \<Rightarrow> (x - mu) * (x - mu) < 9 * v | _ \<Rightarrow> False)
                      column df_cleaned
      | _ \<Rightarrow> df_cleaned)"

definition remove_outliers :: "frame \<Rightarrow> string \<Rightarrow> string \<Rightarrow> frame" where
  "remove_outliers df column method =
     (if \<not> has_column df column then df
      else
        (let df_cleaned = df in
         if method = ''iqr'' then iqr_filter column df_cleaned
         else if method = ''zscore'' then
           (if std_positive column df_cleaned then zscore_filter column df_cleaned
            else df_cleaned)
         else df_cleaned))"

subsection \<open>\<open>get_summary_statistics\<close> (DataAnalyzer)\<close>

record summary =
  total_transactions :: nat
  total_revenue :: rat
  average_revenue_per_transaction :: fval
  unique_products :: nat
  unique_regions :: nat
  date_range_start :: "string option"
  date_range_end :: "string option"

text \<open>\<open>nunique()\<close> counts the different values that are not missing.\<close>

definition nunique :: "cell list \<Rightarrow> nat" where
  "nunique cells = length (remdups (filter (\<lambda>c. \<not> isnull c) cells))"

text \<open>
  \<open>min()\<close> and \<open>max()\<close> skip missing values and are missing when nothing is left; the
  program prints them with \<open>str\<close>.
\<close>

definition series_min :: "cell list \<Rightarrow> cell" where
  "series_min cells =
     (case sort_key cell_key (filter (\<lambda>c. \<not> isnull c) cells) of [] \<Rightarrow> NA | c # cs \<Rightarrow> c)"

definition series_max :: "cell list \<Rightarrow> cell" where
  "series_max cells =
     (case rev (sort_key cell_key (filter (\<lambda>c. \<not> isnull c) cells)) of [] \<Rightarrow> NA | c # cs \<Rightarrow> c)"

definition str_of :: "pandas \<Rightarrow> cell \<Rightarrow> string" where
  "str_of L c = (case c of Str s \<Rightarrow> s | _ \<Rightarrow> py_str L c)"

definition get_summary_statistics :: "pandas \<Rightarrow> analyzer \<Rightarrow> error + summary" where
  "get_summary_statistics L self =
     (case calculate_total_revenue self of
        Inl e \<Rightarrow> Inl e
      | Inr revenue_sum \<Rightarrow>
          Inr \<lparr>total_transactions = length (rows (self_df self)),
               total_revenue = revenue_sum,
               average_revenue_per_transaction =
                 (if has_column (self_df self) ''revenue''
                  then (case mean (series (self_df self) ''revenue'') of
                          Some a \<Rightarrow> Fin a | None \<Rightarrow> NaN)
                  else Fin 0),
               unique_products =
                 (if has_column (self_df self) ''product''
                  then nunique (series (self_df self) ''product'') else 0),
               unique_regions =
                 (if has_column (self_df self) ''region''
                  then nunique (series (self_df self) ''region'') else 0),
               date_range_start =
                 (if has_column (self_df self) ''date''
                  then Some (str_of L (series_min (series (self_df self) ''date''))) else None),
               date_range_end =
                 (if has_column (self_df self) ''date''
                  then Some (str_of L (series_max (series (self_df self) ''date''))) else None)\<rparr>)"


section \<open>Tables as objects: who writes where\<close>

text \<open>
  In Python a DataFrame is an object and a variable holds a reference to it, so that an
  in-place operation on a table is seen through every reference to it. To state that the
  caller's table is not written to, the operations are given a second reading in which the
  tables live in a heap: a list of tables, a reference being a position in it. Every
  statement of the source that creates a table (\<open>copy()\<close>, \<open>drop_duplicates()\<close>,
  \<open>dropna()\<close>, a selection by a mask) allocates a new position; every statement that
  changes a table in place (\<open>df[col] = ...\<close>, \<open>fillna(..., inplace=True)\<close>,
  \<open>interpolate(..., inplace=True)\<close>) writes to the position of that table. A reference
  the program holds is always allocated; \<open>fetch\<close> gives the empty table elsewhere.
\<close>

type_synonym ref = nat

type_synonym heap = "frame list"

definition fetch :: "heap \<Rightarrow> ref \<Rightarrow> frame" where
  "fetch h r = (if r < length h then h ! r else \<lparr>columns = [], rows = []\<rparr>)"

definition alloc :: "frame \<Rightarrow> heap \<Rightarrow> ref \<times> heap" where
  "alloc df h = (length h, h @ [df])"

definition modify :: "ref \<Rightarrow> (frame \<Rightarrow> frame) \<Rightarrow> heap \<Rightarrow> heap" where
  "modify r f h = h[r := f (fetch h r)]"

text \<open>\<open>df.copy()\<close> is a deep copy: a new object with the same cells.\<close>

definition copy :: "ref \<Rightarrow> heap \<Rightarrow> ref \<times> heap" where
  "copy r h = alloc (fetch h r) h"

subsection \<open>DataCleaner on the heap\<close>

definition remove_duplicates_h :: "ref \<Rightarrow> heap \<Rightarrow> ref \<times> heap" where
  "remove_duplicates_h df h = alloc (remove_duplicates (fetch h df)) h"

text \<open>
  When nothing is missing the function returns \<open>df\<close> itself, the object it was given.
  Otherwise it copies; \<open>dropna()\<close> makes one more object, the other strategies write to
  the copy.
\<close>

definition handle_missing_values_h :: "ref \<Rightarrow> string \<Rightarrow> heap \<Rightarrow> (error + ref) \<times> heap" where
  "handle_missing_values_h df strategy h =
     (let initial_missing = count_missing (fetch h df) in
      if initial_missing = 0 then (Inr df, h)
      else
        (let (df_cleaned, h1) = copy df h in
         if strategy = ''drop'' then
           (let (dropped, h2) = alloc (dropna (fetch h1 df_cleaned)) h1 in (Inr dropped, h2))
         else if strategy = ''fill'' then
           (let h2 = modify df_cleaned (for_columns_of Number fill_median) h1;
                h3 = modify df_cleaned (for_columns_of Object fill_mode) h2
            in (Inr df_cleaned, h3))
         else if strategy = ''interpolate'' then
           (Inr df_cleaned, modify df_cleaned (for_columns_of Number interpolate_linear) h1)
         else (Inr df_cleaned, h1)))"

definition fix_data_types_h :: "pandas \<Rightarrow> ref \<Rightarrow> heap \<Rightarrow> ref \<times> heap" where
  "fix_data_types_h L df h =
     (let (df_cleaned, h1) = copy df h;
          h2 = modify df_cleaned (fix_date L) h1;
          h3 = fold (\<lambda>col. modify df_cleaned (fix_numeric L col)) [''revenue'', ''quantity''] h2;
          h4 = fold (\<lambda>col. modify df_cleaned (fix_categorical L col)) [''product'', ''region''] h3
      in (df_cleaned, h4))"

text \<open>
  Without the column the function returns \<open>df\<close> itself. A selection by a mask,
  \<open>df_cleaned[...]\<close>, is a new object.
\<close>

definition remove_outliers_h :: "ref \<Rightarrow> string \<Rightarrow> string \<Rightarrow> heap \<Rightarrow> ref \<times> heap" where
  "remove_outliers_h df column method h =
     (if \<not> has_column (fetch h df) column then (df, h)
      else
        (let (df_cleaned, h1) = copy df h in
         if method = ''iqr'' then alloc (iqr_filter column (fetch h1 df_cleaned)) h1
         else if method = ''zscore'' then
           (if std_positive column (fetch h1 df_cleaned)
            then alloc (zscore_filter column (fetch h1 df_cleaned)) h1
            else (df_cleaned, h1))
         else (df_cleaned, h1)))"

definition clean_all_h :: "pandas \<Rightarrow> ref \<Rightarrow> string \<Rightarrow> heap \<Rightarrow> (error + ref) \<times> heap" where
  "clean_all_h L df handle_missing_strategy h =
     (let (df_cleaned, h1) = copy df h;
          (df_cleaned, h2) = remove_duplicates_h df_cleaned h1;
          (df_cleaned, h3) = fix_data_types_h L df_cleaned h2
      in handle_missing_values_h df_cleaned handle_missing_strategy h3)"

subsection \<open>DataAnalyzer on the heap\<close>

text \<open>
  The analyzer object holds a reference to the copy it made in \<open>__init__\<close>. \<open>view\<close> is
  the analyzer of the first reading that holds the table found there.
\<close>

record analyzer_object =
  df_ref :: ref

definition DataAnalyzer_h :: "ref \<Rightarrow> heap \<Rightarrow> analyzer_object \<times> heap" where
  "DataAnalyzer_h df h = (let (own, h1) = copy df h in (\<lparr>df_ref = own\<rparr>, h1))"

definition view :: "heap \<Rightarrow> analyzer_object \<Rightarrow> analyzer" where
  "view h self = DataAnalyzer (fetch h (df_ref self))"

text \<open>
  Three aggregates and the summary only read \<open>self.df\<close>; the tables they return are new
  and are given as values.
\<close>

definition calculate_total_revenue_h :: "analyzer_object \<Rightarrow> heap \<Rightarrow> (error + rat) \<times> heap" where
  "calculate_total_revenue_h self h = (calculate_total_revenue (view h self), h)"

definition get_top_products_h ::
    "analyzer_object \<Rightarrow> int \<Rightarrow> heap \<Rightarrow> (error + (cell \<times> rat) list) \<times> heap" where
  "get_top_products_h self n h = (get_top_products (view h self) n, h)"

definition get_region_wise_revenue_h ::
    "analyzer_object \<Rightarrow> heap \<Rightarrow> (error + (cell \<times> rat) list) \<times> heap" where
  "get_region_wise_revenue_h self h = (get_region_wise_revenue (view h self), h)"

definition get_summary_statistics_h ::
    "pandas \<Rightarrow> analyzer_object \<Rightarrow> heap \<Rightarrow> (error + summary) \<times> heap" where
  "get_summary_statistics_h L self h = (get_summary_statistics L (view h self), h)"

text \<open>
  \<open>calculate_monthly_growth_rate\<close> copies \<open>self.df\<close> into \<open>df_temp\<close> and writes the
  columns \<open>date\<close> and \<open>year_month\<close> into the copy. A monthly period is stored as the first
  day of its month.
\<close>

fun period_cell :: "cell \<Rightarrow> cell" where
  "period_cell (Date y m d) = Date y m 1"
| "period_cell c = NA"

definition calculate_monthly_growth_rate_h ::
    "pandas \<Rightarrow> analyzer_object \<Rightarrow> heap \<Rightarrow> (error + (string \<times> rat \<times> fval) list) \<times> heap" where
  "calculate_monthly_growth_rate_h L self h =
     (if \<not> has_column (fetch h (df_ref self)) ''date'' \<or>
         \<not> has_column (fetch h (df_ref self)) ''revenue''
      then (calculate_monthly_growth_rate L (view h self), h)
      else
        (let (df_temp, h1) = copy (df_ref self) h in
         case to_datetime_or_raise L (dtype_of (fetch h1 df_temp) ''date'')
                                     (series (fetch h1 df_temp) ''date'') of
           Inl e \<Rightarrow> (Inl e, h1)
         | Inr dates \<Rightarrow>
            (let h2 = modify df_temp (set_series ''date'' Datetime dates) h1;
                 h3 = modify df_temp
                        (\<lambda>d. set_series ''year_month'' Datetime (map period_cell (series d ''date'')) d) h2
             in (calculate_monthly_growth_rate L (view h self), h3))))"

text \<open>
  \<open>calculate_profit_margin\<close> copies \<open>self.df\<close> into \<open>df_temp\<close> and writes the columns
  \<open>cost\<close>, \<open>profit\<close> and \<open>profit_margin\<close> into the copy before it groups. A float is
  stored as a cell; \<open>inf\<close> has no cell and is stored as missing, the stored columns of the
  temporary table being read by nothing but the aggregation, which is computed from the
  float columns themselves.
\<close>

fun cell_of_float :: "fval \<Rightarrow> cell" where
  "cell_of_float (Fin x) = Num x"
| "cell_of_float v = NA"

definition calculate_profit_margin_h ::
    "analyzer_object \<Rightarrow> string option \<Rightarrow> heap \<Rightarrow>
       (error + (cell \<times> fval \<times> fval \<times> fval \<times> fval) list) \<times> heap" where
  "calculate_profit_margin_h self cost_column h =
     (if \<not> has_column (fetch h (df_ref self)) ''revenue''
      then (calculate_profit_margin (view h self) cost_column, h)
      else
        (let (df_temp, h1) = copy (df_ref self) h;
             derived = profit_rows (fetch h1 df_temp) cost_column;
             h2 = modify df_temp
                    (set_series ''cost'' Number (map (\<lambda>(r, c, p, m). cell_of_float c) derived)) h1;
             h3 = modify df_temp
                    (set_series ''profit'' Number (map (\<lambda>(r, c, p, m). cell_of_float p) derived)) h2;
             h4 = modify df_temp
                    (set_series ''profit_margin'' Number (map (\<lambda>(r, c, p, m). cell_of_float m) derived)) h3
         in (calculate_profit_margin (view h self) cost_column, h4)))"

text \<open>
  \<open>extends h h'\<close>: every table of the heap \<open>h\<close> is in \<open>h'\<close> at its position with the
  cells it had, and \<open>h'\<close> may hold new tables after them.
\<close>

definition extends :: "heap \<Rightarrow> heap \<Rightarrow> bool" where
  "extends h h' \<longleftrightarrow> (\<exists>new. h' = h @ new)"


text \<open>
  The table a cleaning call returns, read from the heap the call leaves: what the caller
  sees through the reference it gets back.
\<close>

definition table_of :: "(error + ref) \<times> heap \<Rightarrow> error + frame" where
  "table_of p = (case fst p of Inl e \<Rightarrow> Inl e | Inr r \<Rightarrow> Inr (fetch (snd p) r))"


section \<open>Properties of the ColumnMapper\<close>

subsection \<open>What each loop can do to the dict\<close>

lemma date_loop_cases:
  "date_loop cols m = m \<or> (\<exists>c \<in> set cols. date_loop cols m = AList.update c ''date'' m)"
  by (induction cols) (auto simp: Let_def)

lemma product_loop_cases:
  "product_loop cols m = m \<or> (\<exists>c \<in> set cols. product_loop cols m = AList.update c ''product'' m)"
  by (induction cols) (auto simp: Let_def)

lemma revenue_loop_cases:
  "revenue_loop cols m = m \<or>
   (\<exists>c \<in> set cols. (contains ''sales'' (col_lower c) \<or> col_lower c \<in> {''revenue'', ''amount'', ''total''})
       \<and> revenue_loop cols m = AList.update c ''revenue'' m)"
  by (induction cols) (auto simp: Let_def)

lemma quantity_loop_cases:
  "quantity_loop cols m = m \<or>
   (\<exists>c \<in> set cols. (contains ''quantity'' (col_lower c) \<or> col_lower c \<in> {''qty'', ''units''})
       \<and> quantity_loop cols m = AList.update c ''quantity'' m)"
  by (induction cols) (auto simp: Let_def)

lemma region_exact_loop_find:
  "region_exact_loop cols m =
     (case find (\<lambda>c. col_lower c = ''region'') cols of
        None \<Rightarrow> (m, False) | Some c \<Rightarrow> (AList.update c ''region'' m, True))"
  by (induction cols) auto

lemma region_partial_loop_find:
  "region_partial_loop cols m =
     (case find (\<lambda>c. contains ''region'' (col_lower c)) cols of
        None \<Rightarrow> (m, False) | Some c \<Rightarrow> (AList.update c ''region'' m, True))"
  by (induction cols) auto

lemma region_last_resort_loop_find:
  "region_last_resort_loop cols m =
     (case find (\<lambda>c. col_lower c \<in> {''state'', ''country''}) cols of
        None \<Rightarrow> m | Some c \<Rightarrow> AList.update c ''region'' m)"
  by (induction cols) auto

lemma region_block_find:
  "region_block cols m =
     (case find (\<lambda>c. col_lower c = ''region'') cols of
        Some c \<Rightarrow> AList.update c ''region'' m
      | None \<Rightarrow>
         (case find (\<lambda>c. contains ''region'' (col_lower c)) cols of
            Some c \<Rightarrow> AList.update c ''region'' m
          | None \<Rightarrow>
             (case find (\<lambda>c. col_lower c \<in> {''state'', ''country''}) cols of
                Some c \<Rightarrow> AList.update c ''region'' m
              | None \<Rightarrow> m)))"
  by (simp add: region_block_def region_exact_loop_find region_partial_loop_find
        region_last_resort_loop_find split: option.splits)

lemma kw1: "\<not> contains ''sales'' ''region''" "\<not> contains ''quantity'' ''region''"
  "contains ''region'' ''region''"  "\<not> contains ''region'' ''state''" "\<not> contains ''region'' ''country''"
  by simp_all


subsection \<open>The product block\<close>

lemma product_loop_first_any_tier:
  "''product'' \<notin> set (values_of m) \<Longrightarrow>
   product_loop cols m =
     (case find (\<lambda>c. contains ''product'' (col_lower c) \<or> contains ''item'' (col_lower c)
                     \<or> contains ''name'' (col_lower c)) cols of
        None \<Rightarrow> m | Some c \<Rightarrow> AList.update c ''product'' m)"
  by (induction cols) (auto simp: Let_def)

text \<open>
  Claim C1. The product block is one loop that breaks at the first column matching any of
  its three branches, so on the columns \<open>Product ID, Product Name\<close> the earlier column,
  which contains only \<open>product\<close>, is mapped and \<open>Product Name\<close> is not.
\<close>

theorem product_earlier_partial_wins:
  "column_mapping [''Product ID'', ''Product Name''] = [(''Product ID'', ''product'')]"
  by code_simp

subsection \<open>The region block\<close>

lemma no_region_before:
  "map_of (product_loop cols (date_loop cols [])) c \<noteq> Some ''region''"
  using date_loop_cases[of cols "[]"] product_loop_cases[of cols "date_loop cols []"]
  by (auto simp: update_conv' split: if_splits)

lemma revenue_loop_keeps:
  assumes "map_of m c0 = Some ''region''" "col_lower c0 = ''region''"
  shows "map_of (revenue_loop cols m) c0 = Some ''region''"
  using revenue_loop_cases[of cols m] assms by (auto simp: update_conv')

lemma quantity_loop_keeps:
  assumes "map_of m c0 = Some ''region''" "col_lower c0 = ''region''"
  shows "map_of (quantity_loop cols m) c0 = Some ''region''"
  using quantity_loop_cases[of cols m] assms by (auto simp: update_conv')

lemma revenue_loop_region_only:
  "region_only c0 m \<Longrightarrow> region_only c0 (revenue_loop cols m)"
  using revenue_loop_cases[of cols m] by (auto simp: update_conv' region_only_def split: if_splits)

lemma quantity_loop_region_only:
  "region_only c0 m \<Longrightarrow> region_only c0 (quantity_loop cols m)"
  using quantity_loop_cases[of cols m] by (auto simp: update_conv' region_only_def split: if_splits)

lemma region_only_update:
  "(\<And>c. map_of m c \<noteq> Some ''region'') \<Longrightarrow> region_only c0 (AList.update c0 ''region'' m)"
  by (auto simp: update_conv' region_only_def split: if_splits)

lemma find_Some_holds: "find P xs = Some x \<Longrightarrow> P x \<and> x \<in> set xs"
  by (induction xs) (auto split: if_splits)

text \<open>
  Claim C2. When some column equals \<open>region\<close> after lowering and trimming, the first
  such column is mapped to \<open>region\<close> in the returned dict and no other column is, whatever
  columns merely contain \<open>region\<close> and wherever they stand in the list. And whenever a
  column named \<open>state\<close> or \<open>country\<close> is the one mapped to \<open>region\<close>, no column of the
  list contains \<open>region\<close>.
\<close>

theorem region_exact_match_first:
  "(find (\<lambda>c. col_lower c = ''region'') cols = Some c0 \<longrightarrow>
      map_of (column_mapping cols) c0 = Some ''region'' \<and>
      (\<forall>c. map_of (column_mapping cols) c = Some ''region'' \<longrightarrow> c = c0)) \<and>
   (\<forall>c. map_of (column_mapping cols) c = Some ''region'' \<and>
        col_lower c \<in> {''state'', ''country''} \<longrightarrow>
        (\<forall>c' \<in> set cols. \<not> contains ''region'' (col_lower c')))"
proof (intro conjI impI allI)
  let ?m0 = "product_loop cols (date_loop cols [])"
  assume f: "find (\<lambda>c. col_lower c = ''region'') cols = Some c0"
  then have cl: "col_lower c0 = ''region''" by (auto dest: find_Some_holds)
  from f have rb: "region_block cols ?m0 = AList.update c0 ''region'' ?m0"
    by (simp add: region_block_find)
  have "map_of (region_block cols ?m0) c0 = Some ''region''"
    by (simp add: rb update_conv')
  then show "map_of (column_mapping cols) c0 = Some ''region''"
    unfolding column_mapping_def by (intro quantity_loop_keeps revenue_loop_keeps cl)
  have "region_only c0 (region_block cols ?m0)"
    unfolding rb by (rule region_only_update) (rule no_region_before)
  then have "region_only c0 (column_mapping cols)"
    unfolding column_mapping_def by (intro quantity_loop_region_only revenue_loop_region_only)
  then show "\<And>c. map_of (column_mapping cols) c = Some ''region'' \<Longrightarrow> c = c0"
    by (simp add: region_only_def)
next
  fix c
  let ?m0 = "product_loop cols (date_loop cols [])"
  assume a: "map_of (column_mapping cols) c = Some ''region'' \<and>
        col_lower c \<in> {''state'', ''country''}"
  show "\<forall>c' \<in> set cols. \<not> contains ''region'' (col_lower c')"
  proof (rule ccontr)
    assume "\<not> (\<forall>c' \<in> set cols. \<not> contains ''region'' (col_lower c'))"
    then obtain c1 where c1: "find (\<lambda>c. contains ''region'' (col_lower c)) cols = Some c1"
      by (cases "find (\<lambda>c. contains ''region'' (col_lower c)) cols") (auto simp: find_None_iff)
    then have c1r: "contains ''region'' (col_lower c1)" by (auto dest: find_Some_holds)
    obtain c2 where rb: "region_block cols ?m0 = AList.update c2 ''region'' ?m0"
      and c2r: "contains ''region'' (col_lower c2)"
    proof (cases "find (\<lambda>c. col_lower c = ''region'') cols")
      case None
      with c1 c1r that show ?thesis by (simp add: region_block_find)
    next
      case (Some c2)
      then have "col_lower c2 = ''region''" by (auto dest: find_Some_holds)
      with Some that show ?thesis by (simp add: region_block_find)
    qed
    have "region_only c2 (region_block cols ?m0)"
      unfolding rb by (rule region_only_update) (rule no_region_before)
    then have "region_only c2 (column_mapping cols)"
      unfolding column_mapping_def by (intro quantity_loop_region_only revenue_loop_region_only)
    with a have "c = c2" by (simp add: region_only_def)
    with a c2r show False by auto
  qed
qed

theorem region_exact_match_first_witness:
  "find (\<lambda>c. col_lower c = ''region'') [''Sales Region'', ''State'', '' REGION ''] = Some '' REGION '' \<and>
   map_of (column_mapping [''Sales Region'', ''State'', '' REGION '']) '' REGION '' = Some ''region'' \<and>
   map_of (column_mapping [''State'', ''Units'']) ''State'' = Some ''region'' \<and>
   col_lower ''State'' \<in> {''state'', ''country''} \<and>
   \<not> contains ''region'' (col_lower ''State'') \<and>
   \<not> contains ''region'' (col_lower ''Units'')"
proof -
  have f: "find (\<lambda>c. col_lower c = ''region'') [''Sales Region'', ''State'', '' REGION ''] = Some '' REGION ''"
    by code_simp
  have s: "map_of (column_mapping [''State'', ''Units'']) ''State'' = Some ''region''"
    by code_simp
  have k: "col_lower ''State'' \<in> {''state'', ''country''}" by code_simp
  from region_exact_match_first[of "[''Sales Region'', ''State'', '' REGION '']" "'' REGION ''"] f
  have 1: "map_of (column_mapping [''Sales Region'', ''State'', '' REGION '']) '' REGION '' = Some ''region''"
    by blast
  from region_exact_match_first[of "[''State'', ''Units'']" "''x''"] s k
  have 2: "\<forall>c' \<in> set [''State'', ''Units'']. \<not> contains ''region'' (col_lower c')"
    by blast
  from f 1 s k 2 show ?thesis by simp
qed


section \<open>Properties of the DataCleaner\<close>

subsection \<open>Duplicate removal\<close>

lemma drop_dups_fresh: "r \<in> set (drop_dups seen rs) \<Longrightarrow> r \<notin> set seen"
  by (induction rs arbitrary: seen) (fastforce split: if_splits)+

lemma drop_dups_subset: "set (drop_dups seen rs) \<subseteq> set rs"
  by (induction rs arbitrary: seen) auto

lemma distinct_drop_dups: "distinct (drop_dups seen rs)"
proof (induction rs arbitrary: seen)
  case Nil
  show ?case by simp
next
  case (Cons r rs)
  have "r \<notin> set (drop_dups (r # seen) rs)"
    using drop_dups_fresh[of r "r # seen" rs] by auto
  with Cons show ?case by simp
qed

lemma drop_dups_distinct_id:
  "distinct rs \<Longrightarrow> set rs \<inter> set seen = {} \<Longrightarrow> drop_dups seen rs = rs"
  by (induction rs arbitrary: seen) auto


lemma remove_duplicates_idem: "remove_duplicates (remove_duplicates df) = remove_duplicates df"
  by (simp add: remove_duplicates_def drop_dups_distinct_id distinct_drop_dups)


subsection \<open>The strategy of \<open>handle_missing_values\<close>\<close>

text \<open>
  Claim C10. On a table with no missing value \<open>handle_missing_values\<close> returns the table
  it was given, whatever the strategy string is: the test \<open>initial_missing == 0\<close> comes
  before the strategy is looked at.
\<close>

theorem no_missing_short_circuit:
  "count_missing df = 0 \<Longrightarrow> handle_missing_values df strategy = Inr df"
  by (simp add: handle_missing_values_def)

theorem no_missing_short_circuit_witness:
  "count_missing sample_full = 0 \<and> handle_missing_values sample_full ''median'' = Inr sample_full"
proof -
  have c: "count_missing sample_full = 0"
    unfolding sample_full_def by code_simp
  from c no_missing_short_circuit[OF c, of "''median''"] show ?thesis by simp
qed

text \<open>
  Claim C3, as stated, fails: on a table that has a missing value, the strategy
  \<open>median\<close>, which is none of \<open>fill\<close>, \<open>drop\<close>, \<open>interpolate\<close>, raises nothing and
  the table comes back as it went in.
\<close>

theorem unknown_strategy_returns_table:
  "handle_missing_values sample_gap ''median'' = Inr sample_gap"
  unfolding sample_gap_def by code_simp

text \<open>
  Claim C3, amended. For every table and every strategy string that is none of \<open>fill\<close>,
  \<open>drop\<close>, \<open>interpolate\<close>, \<open>handle_missing_values\<close> raises no error and returns the
  table with its contents unchanged.
\<close>

theorem unknown_strategy_no_error:
  "strategy \<notin> {''fill'', ''drop'', ''interpolate''} \<Longrightarrow>
   handle_missing_values df strategy = Inr df"
  by (simp add: handle_missing_values_def Let_def)

theorem unknown_strategy_no_error_witness:
  "''mean'' \<notin> {''fill'', ''drop'', ''interpolate''} \<and>
   handle_missing_values sample_gap ''mean'' = Inr sample_gap"
proof -
  have s: "''mean'' \<notin> {''fill'', ''drop'', ''interpolate''}" by simp
  from s unknown_strategy_no_error[OF s, of sample_gap] show ?thesis by simp
qed

subsection \<open>Duplicates after \<open>clean_all\<close>\<close>


text \<open>The same output for every reading of text: the example consults none.\<close>

lemma clean_all_fill_any_library:
  "clean_all L sample_gap ''fill'' = Inr sample_filled"
  unfolding sample_gap_def sample_filled_def
  by (simp add: clean_all_def remove_duplicates_def fix_data_types_def fix_date_def
        fix_numeric_def fix_categorical_def has_column_def set_series_def series_def
        dtype_of_def coerce_numeric_def astype_str_def cell_at_def
        handle_missing_values_def count_missing_def isnull_def fill_strategy_def
        for_columns_of_def map_column_def fill_median_def fill_mode_def fillna_def
        median_def nums_def upt_rec[of 0] upt_rec[of 1] upt_rec[of 2])




section \<open>Properties of the DataAnalyzer\<close>

subsection \<open>Grouping keeps the total\<close>






lemma group_keys_distinct:
  "distinct (sort_key ord (remdups xs))"
  by simp







subsection \<open>Missing columns\<close>





subsection \<open>Monthly growth\<close>









lemma groupby_keys_sorted:
  "sorted (map ord (map fst (groupby ord keyed))) \<and> distinct (map fst (groupby ord keyed))"
  by (simp add: groupby_def comp_def)

lemma monthly_revenue_chronological:
  "sorted (map fst (monthly_revenue dates revenue)) \<and> distinct (map fst (monthly_revenue dates revenue))"
  using groupby_keys_sorted[of id "zip (map to_period dates) revenue"]
  by (simp add: monthly_revenue_def comp_def case_prod_unfold)





subsection \<open>Profit margin\<close>














lemma row_margin_estimate:
  "row_margin x (x * (3 / 5)) = (if x = 0 then NaN else Fin 40)"
  by (simp add: row_margin_def)







text \<open>
  With a cost column the margin of a product is the mean of its rows' margins: 50 and 100
  give 75, where the margin of the sums would be 87.5.
\<close>

lemma profit_margin_is_mean_of_rows:
  "calculate_profit_margin (DataAnalyzer sample_costs) (Some ''cost'')
   = Inr [(Str ''A'', Fin 400, Fin 50, Fin 350, Fin 75)]"
  unfolding sample_costs_def by code_simp




section \<open>Properties of the heap reading\<close>

subsection \<open>Every write goes to a new table\<close>

lemma extends_refl: "extends h h"
  by (simp add: extends_def)

lemma extends_trans: "extends h1 h2 \<Longrightarrow> extends h2 h3 \<Longrightarrow> extends h1 h3"
  unfolding extends_def by auto

lemma extends_alloc: "extends h (snd (alloc df h))"
  by (simp add: extends_def alloc_def)

lemma fst_alloc: "fst (alloc df h) = length h"
  by (simp add: alloc_def)

lemma extends_copy: "extends h (snd (copy r h))"
  by (simp add: copy_def extends_alloc)

lemma fst_copy: "fst (copy r h) = length h"
  by (simp add: copy_def alloc_def)

lemma length_modify: "length (modify r f h) = length h"
  by (simp add: modify_def)

lemma extends_modify:
  assumes "extends h0 h" and "length h0 \<le> r"
  shows "extends h0 (modify r f h)"
proof -
  from assms(1) obtain new where h: "h = h0 @ new" by (auto simp: extends_def)
  have "modify r f h = h0 @ new[r - length h0 := f (fetch h r)]"
    using assms(2) by (simp add: modify_def h list_update_append)
  then show ?thesis by (auto simp: extends_def)
qed

lemma extends_fold_modify:
  "extends h0 h \<Longrightarrow> length h0 \<le> r \<Longrightarrow> extends h0 (fold (\<lambda>x. modify r (g x)) xs h)"
proof (induction xs arbitrary: h)
  case Nil
  then show ?case by simp
next
  case (Cons x xs)
  from Cons.prems have "extends h0 (modify r (g x) h)" by (rule extends_modify)
  from Cons.IH[OF this Cons.prems(2)] show ?case by simp
qed

lemma fetch_extends:
  assumes "extends h h'" and "r < length h"
  shows "fetch h' r = fetch h r"
proof -
  from assms(1) obtain new where "h' = h @ new" by (auto simp: extends_def)
  with assms(2) show ?thesis by (simp add: fetch_def nth_append)
qed

lemma extends_remove_duplicates_h: "extends h (snd (remove_duplicates_h df h))"
  by (simp add: remove_duplicates_h_def extends_alloc)

lemma extends_handle_missing_values_h: "extends h (snd (handle_missing_values_h df strategy h))"
proof (cases "count_missing (fetch h df) = 0")
  case True
  then show ?thesis by (simp add: handle_missing_values_h_def extends_refl)
next
  case False
  obtain b h1 where c: "copy df h = (b, h1)" by (cases "copy df h")
  then have e: "extends h h1" and b: "length h \<le> b"
    using extends_copy[of h df] fst_copy[of df h] by simp_all
  consider "strategy = ''drop''" | "strategy = ''fill''" | "strategy = ''interpolate''"
    | "strategy \<noteq> ''drop''" "strategy \<noteq> ''fill''" "strategy \<noteq> ''interpolate''"
    by blast
  then show ?thesis
  proof cases
    case 1
    have "extends h (snd (alloc (dropna (fetch h1 b)) h1))"
      using e extends_alloc by (rule extends_trans)
    with False 1 show ?thesis
      by (simp add: handle_missing_values_h_def c case_prod_unfold Let_def)
  next
    case 2
    have "extends h (modify b (for_columns_of Object fill_mode)
                      (modify b (for_columns_of Number fill_median) h1))"
      by (intro extends_modify e b)
    with False 2 show ?thesis
      by (simp add: handle_missing_values_h_def c)
  next
    case 3
    have "extends h (modify b (for_columns_of Number interpolate_linear) h1)"
      by (intro extends_modify e b)
    with False 3 show ?thesis
      by (simp add: handle_missing_values_h_def c)
  next
    case 4
    with False e show ?thesis
      by (simp add: handle_missing_values_h_def c)
  qed
qed

lemma extends_fix_data_types_h: "extends h (snd (fix_data_types_h L df h))"
proof -
  obtain b h1 where c: "copy df h = (b, h1)" by (cases "copy df h")
  then have e: "extends h h1" and b: "length h \<le> b"
    using extends_copy[of h df] fst_copy[of df h] by simp_all
  show ?thesis
    unfolding fix_data_types_h_def Let_def c prod.case snd_conv
    by (intro extends_fold_modify extends_modify e b)
qed

lemma extends_remove_outliers_h: "extends h (snd (remove_outliers_h df column method h))"
proof (cases "has_column (fetch h df) column")
  case False
  then show ?thesis by (simp add: remove_outliers_h_def extends_refl)
next
  case True
  obtain b h1 where c: "copy df h = (b, h1)" by (cases "copy df h")
  then have e: "extends h h1"
    using extends_copy[of h df] by simp
  have d: "extends h (snd (alloc x h1))" for x
    using e extends_alloc[of h1 x] by (rule extends_trans)
  consider "method = ''iqr''" | "method \<noteq> ''iqr''" "method = ''zscore''"
    | "method \<noteq> ''iqr''" "method \<noteq> ''zscore''" by blast
  then show ?thesis
  proof cases
    case 1
    with True d[of "iqr_filter column (fetch h1 b)"] show ?thesis
      by (simp add: remove_outliers_h_def c)
  next
    case 2
    with True d[of "zscore_filter column (fetch h1 b)"] e show ?thesis
      by (simp add: remove_outliers_h_def c)
  next
    case 3
    with True e show ?thesis
      by (simp add: remove_outliers_h_def c)
  qed
qed

lemma extends_DataAnalyzer_h: "extends h (snd (DataAnalyzer_h df h))"
  using extends_copy[of h df] by (simp add: DataAnalyzer_h_def case_prod_unfold Let_def)

lemma extends_calculate_monthly_growth_rate_h:
  "extends h (snd (calculate_monthly_growth_rate_h L self h))"
proof (cases "\<not> has_column (fetch h (df_ref self)) ''date'' \<or>
              \<not> has_column (fetch h (df_ref self)) ''revenue''")
  case True
  then show ?thesis
    by (simp only: calculate_monthly_growth_rate_h_def if_True snd_conv extends_refl)
next
  case False
  obtain b h1 where c: "copy (df_ref self) h = (b, h1)" by (cases "copy (df_ref self) h")
  then have e: "extends h h1" and b: "length h \<le> b"
    using extends_copy[of h "df_ref self"] fst_copy[of "df_ref self" h] by simp_all
  show ?thesis
  proof (cases "to_datetime_or_raise L (dtype_of (fetch h1 b) ''date'') (series (fetch h1 b) ''date'')")
    case (Inl err)
    with False e show ?thesis
      by (simp only: calculate_monthly_growth_rate_h_def if_False c prod.case Let_def sum.case snd_conv)
  next
    case (Inr dates)
    have "extends h (modify b (\<lambda>d. set_series ''year_month'' Datetime (map period_cell (series d ''date'')) d)
                      (modify b (set_series ''date'' Datetime dates) h1))"
      by (intro extends_modify e b)
    with False Inr show ?thesis
      by (simp only: calculate_monthly_growth_rate_h_def if_False c prod.case Let_def sum.case snd_conv)
  qed
qed

lemma extends_calculate_profit_margin_h:
  "extends h (snd (calculate_profit_margin_h self cost_column h))"
proof (cases "has_column (fetch h (df_ref self)) ''revenue''")
  case False
  then show ?thesis
    by (simp add: calculate_profit_margin_h_def extends_refl)
next
  case True
  obtain b h1 where c: "copy (df_ref self) h = (b, h1)" by (cases "copy (df_ref self) h")
  then have e: "extends h h1" and b: "length h \<le> b"
    using extends_copy[of h "df_ref self"] fst_copy[of "df_ref self" h] by simp_all
  have "extends h (modify b (set_series ''profit_margin'' Number x3)
                    (modify b (set_series ''profit'' Number x2)
                      (modify b (set_series ''cost'' Number x1) h1)))" for x1 x2 x3
    by (intro extends_modify e b)
  with True show ?thesis
    by (simp only: calculate_profit_margin_h_def not_True_eq_False if_False c prod.case Let_def snd_conv)
qed

lemma extends_clean_all_h: "extends h (snd (clean_all_h L df strategy h))"
proof -
  obtain b1 h1 where c1: "copy df h = (b1, h1)" by (cases "copy df h")
  obtain b2 h2 where c2: "remove_duplicates_h b1 h1 = (b2, h2)" by (cases "remove_duplicates_h b1 h1")
  obtain b3 h3 where c3: "fix_data_types_h L b2 h2 = (b3, h3)" by (cases "fix_data_types_h L b2 h2")
  have "extends h h1" using extends_copy[of h df] c1 by simp
  moreover have "extends h1 h2" using extends_remove_duplicates_h[of h1 b1] c2 by simp
  moreover have "extends h2 h3" using extends_fix_data_types_h[of h2 L b2] c3 by simp
  moreover have "extends h3 (snd (handle_missing_values_h b3 strategy h3))"
    by (rule extends_handle_missing_values_h)
  ultimately have "extends h (snd (handle_missing_values_h b3 strategy h3))"
    by (blast intro: extends_trans)
  then show ?thesis by (simp add: clean_all_h_def c1 c2 c3 Let_def)
qed

subsection \<open>The heap reading computes the tables of the first reading\<close>

lemma fetch_new: "fetch (h @ [df]) (length h) = df"
  by (simp add: fetch_def)

lemma fetch_modify: "r < length h \<Longrightarrow> fetch (modify r f h) r = f (fetch h r)"
  by (simp add: fetch_def modify_def)

lemma copy_eq: "copy r h = (length h, h @ [fetch h r])"
  by (simp add: copy_def alloc_def)

lemma remove_duplicates_h_agrees:
  "fetch (snd (remove_duplicates_h df h)) (fst (remove_duplicates_h df h))
   = remove_duplicates (fetch h df)"
  by (simp add: remove_duplicates_h_def alloc_def fetch_new)

lemma fold_modify:
  "r < length h \<Longrightarrow>
   fetch (fold (\<lambda>x. modify r (g x)) xs h) r = fold g xs (fetch h r) \<and>
   length (fold (\<lambda>x. modify r (g x)) xs h) = length h"
  by (induction xs arbitrary: h) (simp_all add: fetch_modify length_modify)

lemma fix_data_types_h_agrees:
  "fetch (snd (fix_data_types_h L df h)) (fst (fix_data_types_h L df h))
   = fix_data_types L (fetch h df)"
proof -
  let ?b = "length h"
  let ?h1 = "h @ [fetch h df]"
  let ?h2 = "modify ?b (fix_date L) ?h1"
  let ?h3 = "fold (\<lambda>col. modify ?b (fix_numeric L col)) [''revenue'', ''quantity''] ?h2"
  have b: "?b < length ?h1" by simp
  have 2: "fetch ?h2 ?b = fix_date L (fetch h df)" "?b < length ?h2"
    using b by (simp_all only: fetch_modify length_modify fetch_new)
  have 3: "fetch ?h3 ?b = fold (fix_numeric L) [''revenue'', ''quantity''] (fix_date L (fetch h df))"
          "?b < length ?h3"
    using fold_modify[OF 2(2), of "fix_numeric L" "[''revenue'', ''quantity'']"] 2 by simp_all
  have 4: "fetch (fold (\<lambda>col. modify ?b (fix_categorical L col)) [''product'', ''region''] ?h3) ?b
           = fold (fix_categorical L) [''product'', ''region'']
               (fold (fix_numeric L) [''revenue'', ''quantity''] (fix_date L (fetch h df)))"
    using fold_modify[OF 3(2), of "fix_categorical L" "[''product'', ''region'']"] 3(1) by simp
  show ?thesis
    unfolding fix_data_types_h_def fix_data_types_def copy_eq Let_def prod.case fst_conv snd_conv
    by (rule 4)
qed

lemma handle_missing_values_h_agrees:
  "table_of (handle_missing_values_h df strategy h) = handle_missing_values (fetch h df) strategy"
proof (cases "count_missing (fetch h df) = 0")
  case True
  then show ?thesis
    by (simp add: handle_missing_values_h_def handle_missing_values_def table_of_def)
next
  case False
  let ?b = "length h"
  let ?h1 = "h @ [fetch h df]"
  have b: "?b < length ?h1" by simp
  have fill: "fetch (modify ?b (for_columns_of Object fill_mode)
                      (modify ?b (for_columns_of Number fill_median) ?h1)) ?b
              = fill_strategy (fetch h df)"
    using b by (simp add: fetch_modify length_modify fetch_new fill_strategy_def)
  have interp: "fetch (modify ?b (for_columns_of Number interpolate_linear) ?h1) ?b
                = interpolate_strategy (fetch h df)"
    using b by (simp add: fetch_modify fetch_new interpolate_strategy_def)
  have drop: "fetch (?h1 @ [dropna (fetch ?h1 ?b)]) (length ?h1) = dropna (fetch h df)"
    by (simp only: fetch_new)
  consider "strategy = ''drop''" | "strategy = ''fill''" | "strategy = ''interpolate''"
    | "strategy \<noteq> ''drop''" "strategy \<noteq> ''fill''" "strategy \<noteq> ''interpolate''"
    by blast
  then show ?thesis
  proof cases
    case 1
    with False drop show ?thesis
      by (simp add: handle_missing_values_h_def handle_missing_values_def table_of_def copy_eq
            alloc_def Let_def)
  next
    case 2
    with False fill show ?thesis
      by (simp add: handle_missing_values_h_def handle_missing_values_def table_of_def copy_eq Let_def)
  next
    case 3
    with False interp show ?thesis
      by (simp add: handle_missing_values_h_def handle_missing_values_def table_of_def copy_eq Let_def)
  next
    case 4
    with False show ?thesis
      by (simp add: handle_missing_values_h_def handle_missing_values_def table_of_def copy_eq
            Let_def fetch_new)
  qed
qed

lemma clean_all_h_agrees:
  "table_of (clean_all_h L df strategy h) = clean_all L (fetch h df) strategy"
proof -
  obtain b1 h1 where c1: "copy df h = (b1, h1)" by (cases "copy df h")
  obtain b2 h2 where c2: "remove_duplicates_h b1 h1 = (b2, h2)" by (cases "remove_duplicates_h b1 h1")
  obtain b3 h3 where c3: "fix_data_types_h L b2 h2 = (b3, h3)" by (cases "fix_data_types_h L b2 h2")
  have 1: "fetch h1 b1 = fetch h df"
    using c1 by (auto simp: copy_eq fetch_new)
  have 2: "fetch h2 b2 = remove_duplicates (fetch h1 b1)"
    using remove_duplicates_h_agrees[of b1 h1] c2 by simp
  have 3: "fetch h3 b3 = fix_data_types L (fetch h2 b2)"
    using fix_data_types_h_agrees[of L b2 h2] c3 by simp
  have "table_of (handle_missing_values_h b3 strategy h3)
        = handle_missing_values (fix_data_types L (remove_duplicates (fetch h df))) strategy"
    by (simp only: handle_missing_values_h_agrees 1 2 3)
  then show ?thesis
    by (simp add: clean_all_h_def clean_all_def c1 c2 c3 Let_def)
qed

lemma DataAnalyzer_h_agrees:
  "view (snd (DataAnalyzer_h df h)) (fst (DataAnalyzer_h df h)) = DataAnalyzer (fetch h df)"
  by (simp add: DataAnalyzer_h_def view_def copy_eq fetch_new Let_def)

lemma remove_outliers_h_agrees:
  "fetch (snd (remove_outliers_h df column method h)) (fst (remove_outliers_h df column method h))
   = remove_outliers (fetch h df) column method"
proof (cases "has_column (fetch h df) column")
  case False
  then show ?thesis by (simp add: remove_outliers_h_def remove_outliers_def)
next
  case True
  consider "method = ''iqr''" | "method \<noteq> ''iqr''" "method = ''zscore''"
    | "method \<noteq> ''iqr''" "method \<noteq> ''zscore''" by blast
  then show ?thesis
  proof cases
    case 1
    with True show ?thesis
      by (simp add: remove_outliers_h_def remove_outliers_def copy_eq alloc_def fetch_def nth_append Let_def)
  next
    case 2
    with True show ?thesis
      by (simp add: remove_outliers_h_def remove_outliers_def copy_eq alloc_def fetch_def nth_append Let_def)
  next
    case 3
    with True show ?thesis
      by (simp add: remove_outliers_h_def remove_outliers_def copy_eq alloc_def fetch_def nth_append Let_def)
  qed
qed

subsection \<open>The caller's table\<close>

text \<open>
  Claim C9. Take any heap and any table \<open>r\<close> in it: the caller's table, or the table an
  analyzer holds. After each operation of the cleaner, after the construction of an
  analyzer and after each operation of an analyzer, the table at \<open>r\<close> has the cells it had
  before. What the operations write, they write to tables they allocated themselves.
\<close>

theorem tables_not_written:
  assumes "r < length h"
  shows "fetch (snd (remove_duplicates_h df h)) r = fetch h r \<and>
         fetch (snd (handle_missing_values_h df strategy h)) r = fetch h r \<and>
         fetch (snd (fix_data_types_h L df h)) r = fetch h r \<and>
         fetch (snd (remove_outliers_h df column method h)) r = fetch h r \<and>
         fetch (snd (clean_all_h L df strategy h)) r = fetch h r \<and>
         fetch (snd (DataAnalyzer_h df h)) r = fetch h r \<and>
         fetch (snd (calculate_total_revenue_h self h)) r = fetch h r \<and>
         fetch (snd (get_top_products_h self n h)) r = fetch h r \<and>
         fetch (snd (get_region_wise_revenue_h self h)) r = fetch h r \<and>
         fetch (snd (calculate_monthly_growth_rate_h L self h)) r = fetch h r \<and>
         fetch (snd (calculate_profit_margin_h self cost_column h)) r = fetch h r \<and>
         fetch (snd (get_summary_statistics_h L self h)) r = fetch h r"
  using assms
  by (simp add: fetch_extends extends_remove_duplicates_h extends_handle_missing_values_h
        extends_fix_data_types_h extends_remove_outliers_h extends_clean_all_h
        extends_DataAnalyzer_h extends_calculate_monthly_growth_rate_h
        extends_calculate_profit_margin_h calculate_total_revenue_h_def get_top_products_h_def
        get_region_wise_revenue_h_def get_summary_statistics_h_def)

theorem tables_not_written_witness:
  "(0::nat) < length [sample_gap] \<and>
   fetch (snd (remove_duplicates_h 0 [sample_gap])) 0 = fetch [sample_gap] 0 \<and>
   fetch (snd (handle_missing_values_h 0 ''fill'' [sample_gap])) 0 = fetch [sample_gap] 0 \<and>
   fetch (snd (clean_all_h reads_nothing 0 ''fill'' [sample_gap])) 0 = fetch [sample_gap] 0 \<and>
   fetch (snd (calculate_profit_margin_h \<lparr>df_ref = 0\<rparr> None [sample_gap])) 0 = fetch [sample_gap] 0 \<and>
   fetch [sample_gap] 0 = sample_gap \<and>
   table_of (clean_all_h reads_nothing 0 ''fill'' [sample_gap]) = Inr sample_filled"
proof -
  have l: "(0::nat) < length [sample_gap]" by simp
  have f: "fetch [sample_gap] 0 = sample_gap" by (simp add: fetch_def)
  have t: "table_of (clean_all_h reads_nothing 0 ''fill'' [sample_gap]) = Inr sample_filled"
    by (simp only: clean_all_h_agrees f clean_all_fill_any_library)
  note w = tables_not_written[OF l, of 0 "''fill''" reads_nothing "''revenue''" "''iqr''" "\<lparr>df_ref = 0\<rparr>" 10 None]
  from w have 1: "fetch (snd (remove_duplicates_h 0 [sample_gap])) 0 = fetch [sample_gap] 0" by (rule conjunct1)
  from w have 2: "fetch (snd (handle_missing_values_h 0 ''fill'' [sample_gap])) 0 = fetch [sample_gap] 0" by blast
  from w have 3: "fetch (snd (clean_all_h reads_nothing 0 ''fill'' [sample_gap])) 0 = fetch [sample_gap] 0" by blast
  from w have 4: "fetch (snd (calculate_profit_margin_h \<lparr>df_ref = 0\<rparr> None [sample_gap])) 0 = fetch [sample_gap] 0" by blast
  from l 1 2 3 4 f t show ?thesis by blast
qed

end
